theory Spec2Isabelle
  imports Complex_Main "HOL-Library.AList"
begin

section \<open>JavaScript values\<close>

text \<open>
  The cells (Vue refs) bound by \<open>useReflectAttribute\<close> hold JavaScript primitives. A number
  is \<open>NaN\<close>, an infinity or a finite value; \<open>-0\<close> and \<open>+0\<close> are one value, which no operation
  of the source tells apart (\<open>===\<close>, \<open>String\<close> and \<open>Boolean\<close> agree on them). Objects, symbols
  and bigints are not modelled.
\<close>

datatype jsnum = NaN | Fin rat | PosInf | NegInf

datatype jsval = Undefined | Null | Bool bool | Num jsnum | Str string

text \<open>
  The conversions between strings and numbers are built-ins of the host (\<open>Number(s)\<close> on a
  string, \<open>String(n)\<close> on a number). The development is parametric in them.
\<close>

record host =
  NumberOfString :: "string \<Rightarrow> jsnum"
  StringOfNumber :: "jsnum \<Rightarrow> string"

fun Boolean :: "jsval \<Rightarrow> bool" where
  "Boolean Undefined = False"
| "Boolean Null = False"
| "Boolean (Bool b) = b"
| "Boolean (Num n) = (n \<noteq> NaN \<and> n \<noteq> Fin 0)"
| "Boolean (Str s) = (s \<noteq> [])"

fun Number :: "host \<Rightarrow> jsval \<Rightarrow> jsnum" where
  "Number h Undefined = NaN"
| "Number h Null = Fin 0"
| "Number h (Bool b) = (if b then Fin 1 else Fin 0)"
| "Number h (Num n) = n"
| "Number h (Str s) = NumberOfString h s"

fun String :: "host \<Rightarrow> jsval \<Rightarrow> string" where
  "String h Undefined = ''undefined''"
| "String h Null = ''null''"
| "String h (Bool b) = (if b then ''true'' else ''false'')"
| "String h (Num n) = StringOfNumber h n"
| "String h (Str s) = s"

definition isNaN :: "jsnum \<Rightarrow> bool" where
  "isNaN n = (n = NaN)"

text \<open>Strict equality \<open>===\<close>: same type and same value, and \<open>NaN\<close> equals nothing.\<close>

definition strict_eq :: "jsval \<Rightarrow> jsval \<Rightarrow> bool" where
  "strict_eq a b = (a = b \<and> a \<noteq> Num NaN)"

datatype type_name = T_string | T_boolean | T_number | T_object | T_undefined

fun typeof :: "jsval \<Rightarrow> type_name" where
  "typeof Undefined = T_undefined"
| "typeof Null = T_object"
| "typeof (Bool b) = T_boolean"
| "typeof (Num n) = T_number"
| "typeof (Str s) = T_string"

text \<open>\<open>isType(anyTypeValue, expectedType)\<close>; the expected type \<open>null\<close> is \<open>None\<close>.\<close>

fun isType :: "jsval \<Rightarrow> type_name option \<Rightarrow> bool" where
  "isType anyTypeValue None = (anyTypeValue = Null)"
| "isType anyTypeValue (Some T_undefined) = (anyTypeValue = Undefined)"
| "isType anyTypeValue (Some expectedType) = (typeof anyTypeValue = expectedType)"

section \<open>Attribute declarations and the binding table\<close>

text \<open>
  An optional property of a declaration is left out, written with the value \<open>undefined\<close>,
  or written with a value. The object spread \<open>...config\<close> copies a property that is written,
  also when its value is \<open>undefined\<close>.
\<close>

datatype 'a optional = Omitted | Given_undefined | Given 'a

datatype attr_type = type_string | type_boolean | type_number

text \<open>
  \<open>AttributeRefConfig\<close>. A cell is the address of a ref in the store. \<open>attribute = None\<close> and
  \<open>ref = None\<close> stand for a property that is missing (\<open>undefined\<close> or \<open>null\<close>).
\<close>

record AttributeRefConfig =
  attribute :: "string option"
  ref :: "nat option"
  type :: "attr_type optional"
  reflect :: "bool optional"

text \<open>\<open>Required<AttributeRefConfig>\<close>; \<open>None\<close> in \<open>e_type\<close> or \<open>e_reflect\<close> is \<open>undefined\<close>.\<close>

record EffectiveConfig =
  e_attribute :: string
  e_ref :: nat
  e_type :: "attr_type option"
  e_reflect :: "bool option"

datatype mutation_type = attributes | childList | characterData

record MutationRecord =
  mtype :: mutation_type
  target :: nat
  attributeName :: string
  oldValue :: "string option"

text \<open>
  The state the engine reads and writes: the store of cells (\<open>ref.value\<close> by address), the
  attributes of every element, \<open>targetRef.value\<close>, the closure variables of one call of
  \<open>useReflectAttribute\<close> (\<open>isUpdatingDomFromRef\<close>, \<open>observer\<close> with the element and the
  attribute filter it observes, \<open>refToDomSyncStops\<close> as the list of the bindings watched),
  the mutation records queued for the observer, the number of pending \<open>setTimeout\<close> callbacks,
  the calls of \<open>onAttributeChange\<close> made so far and the declarations \<open>console.warn\<close> has
  reported.
\<close>

record world =
  cells :: "nat \<Rightarrow> jsval"
  elements :: "nat \<Rightarrow> string \<rightharpoonup> string"
  targetRef :: "nat option"
  isUpdatingDomFromRef :: bool
  observer :: "(nat \<times> string list) option"
  refToDomSyncStops :: "EffectiveConfig list"
  pending :: "MutationRecord list"
  timers :: nat
  notified :: "(string \<times> string option \<times> string option \<times> jsval) list"
  console :: "AttributeRefConfig option list"

subsection \<open>makeAttributeConfigMap\<close>

text \<open>The test \<open>config && config.attribute && config.ref\<close>: truthiness, not presence.\<close>

fun accepted :: "AttributeRefConfig option \<Rightarrow> bool" where
  "accepted None = False"
| "accepted (Some config) =
     ((case attribute config of None \<Rightarrow> False | Some a \<Rightarrow> a \<noteq> []) \<and> ref config \<noteq> None)"

text \<open>
  The object literal \<open>{reflect: config.reflect ?? true, type: config.type ?? 'string', ...config}\<close>.
\<close>

definition effectiveConfig :: "AttributeRefConfig \<Rightarrow> EffectiveConfig" where
  "effectiveConfig config =
     \<lparr>e_attribute = the (attribute config),
      e_ref = the (ref config),
      e_type = (case type config of Omitted \<Rightarrow> Some type_string | Given_undefined \<Rightarrow> None
                | Given t \<Rightarrow> Some t),
      e_reflect = (case reflect config of Omitted \<Rightarrow> Some True | Given_undefined \<Rightarrow> None
                | Given b \<Rightarrow> Some b)\<rparr>"

text \<open>The two branches that coerce the value of the cell in place.\<close>

definition coerce_ref :: "host \<Rightarrow> EffectiveConfig \<Rightarrow> world \<Rightarrow> world" where
  "coerce_ref h ec w =
     (let v = cells w (e_ref ec) in
      if e_type ec = Some type_boolean \<and> \<not> isType v (Some T_boolean) \<and> \<not> isType v None
           \<and> \<not> isType v (Some T_undefined)
      then w\<lparr>cells := (cells w)(e_ref ec := Bool (Boolean v))\<rparr>
      else if e_type ec = Some type_number \<and> \<not> isType v (Some T_boolean) \<and> \<not> isType v None
           \<and> \<not> isType v (Some T_undefined)
      then (let coercedValue = Number h v in
            w\<lparr>cells := (cells w)(e_ref ec :=
                 (if isNaN coercedValue then Null else Num coercedValue))\<rparr>)
      else w)"

text \<open>
  The body of \<open>attributes.forEach\<close>. The table is a JavaScript \<open>Map\<close>: \<open>set\<close> on a key that
  is there replaces the value and keeps the position, a new key goes to the end.
\<close>

definition config_step ::
  "host \<Rightarrow> AttributeRefConfig option \<Rightarrow> (string \<times> EffectiveConfig) list \<times> world
     \<Rightarrow> (string \<times> EffectiveConfig) list \<times> world" where
  "config_step h config mw =
     (if accepted config
      then (let ec = effectiveConfig (the config) in
            (AList.update (e_attribute ec) ec (fst mw), coerce_ref h ec (snd mw)))
      else (fst mw, (snd mw)\<lparr>console := console (snd mw) @ [config]\<rparr>))"

fun forEach_config ::
  "host \<Rightarrow> AttributeRefConfig option list \<Rightarrow> (string \<times> EffectiveConfig) list \<times> world
     \<Rightarrow> (string \<times> EffectiveConfig) list \<times> world" where
  "forEach_config h [] mw = mw"
| "forEach_config h (config # rest) mw = forEach_config h rest (config_step h config mw)"

definition makeAttributeConfigMap ::
  "host \<Rightarrow> AttributeRefConfig option list \<Rightarrow> world
     \<Rightarrow> (string \<times> EffectiveConfig) list \<times> world" where
  "makeAttributeConfigMap h attrs w = forEach_config h attrs ([], w)"

section \<open>The element and the mutation observer\<close>

text \<open>
  Attribute names are taken as the DOM stores them (an HTML document folds the name to lower
  case before it is stored or compared), and \<open>setAttribute\<close> raising on a name that is
  no valid attribute name is not modelled. \<open>getAttribute\<close> returns \<open>null\<close> (\<open>None\<close>) for an
  attribute that is absent.
\<close>

definition getAttribute :: "nat \<Rightarrow> string \<Rightarrow> world \<Rightarrow> string option" where
  "getAttribute e name w = elements w e name"

definition hasAttribute :: "nat \<Rightarrow> string \<Rightarrow> world \<Rightarrow> bool" where
  "hasAttribute e name w = (elements w e name \<noteq> None)"

text \<open>
  A write to an attribute of the observed element whose name is in the attribute filter
  queues a record with the old value (\<open>attributeOldValue: true\<close>).
\<close>

definition queue_record :: "nat \<Rightarrow> string \<Rightarrow> world \<Rightarrow> world" where
  "queue_record e name w =
     (case observer w of
        None \<Rightarrow> w
      | Some (t, attributeFilter) \<Rightarrow>
          if t = e \<and> name \<in> set attributeFilter
          then w\<lparr>pending := pending w @
                 [\<lparr>mtype = attributes, target = e, attributeName = name,
                   oldValue = elements w e name\<rparr>]\<rparr>
          else w)"

definition setAttribute :: "nat \<Rightarrow> string \<Rightarrow> string \<Rightarrow> world \<Rightarrow> world" where
  "setAttribute e name v w =
     (queue_record e name w)\<lparr>elements := (elements w)(e := (elements w e)(name \<mapsto> v))\<rparr>"

definition removeAttribute :: "nat \<Rightarrow> string \<Rightarrow> world \<Rightarrow> world" where
  "removeAttribute e name w =
     (if elements w e name = None then w
      else (queue_record e name w)\<lparr>elements := (elements w)(e := (elements w e)(name := None))\<rparr>)"

text \<open>The result of \<open>getAttribute\<close> as a JavaScript value.\<close>

fun raw_value :: "string option \<Rightarrow> jsval" where
  "raw_value None = Null"
| "raw_value (Some s) = Str s"

section \<open>Outbound sync: the watch callback\<close>

text \<open>
  Vue calls the watch callback of a binding with the new value after the value of its cell
  has changed. \<open>setTimeout(() => { isUpdatingDomFromRef = false }, 0)\<close> adds a pending timer;
  the timer callback runs as a task of its own, after the records of the current task are
  delivered.
\<close>

definition setTimeout_reset :: "world \<Rightarrow> world" where
  "setTimeout_reset w = w\<lparr>timers := Suc (timers w)\<rparr>"

definition timer_callback :: "world \<Rightarrow> world" where
  "timer_callback w =
     (if timers w = 0 then w else w\<lparr>isUpdatingDomFromRef := False, timers := timers w - 1\<rparr>)"

definition watch_callback :: "host \<Rightarrow> EffectiveConfig \<Rightarrow> jsval \<Rightarrow> world \<Rightarrow> world" where
  "watch_callback h config newValue w =
     (let attrName = e_attribute config in
      case targetRef w of
        None \<Rightarrow> w
      | Some currentTargetInWatcher \<Rightarrow>
          if e_type config = Some type_boolean then
            (let desiredDomPresence = (newValue = Bool True);
                 currentDomPresenceInWatcher = hasAttribute currentTargetInWatcher attrName w
             in if currentDomPresenceInWatcher \<noteq> desiredDomPresence then
                  setTimeout_reset
                    ((if desiredDomPresence
                      then setAttribute currentTargetInWatcher attrName ''''
                      else removeAttribute currentTargetInWatcher attrName)
                       (w\<lparr>isUpdatingDomFromRef := True\<rparr>))
                else w)
          else
            (let desiredDomValue =
                   (if newValue = Null \<or> newValue = Undefined then None
                    else Some (String h newValue));
                 currentDomValueInWatcher = getAttribute currentTargetInWatcher attrName w
             in if currentDomValueInWatcher \<noteq> desiredDomValue then
                  setTimeout_reset
                    ((case desiredDomValue of
                        None \<Rightarrow> removeAttribute currentTargetInWatcher attrName
                      | Some v \<Rightarrow> setAttribute currentTargetInWatcher attrName v)
                       (w\<lparr>isUpdatingDomFromRef := True\<rparr>))
                else w))"

section \<open>Initial sync on mount\<close>

text \<open>
  The body of \<open>attributeConfigMap.forEach\<close> in \<open>mountedCallback\<close> has three parts: the
  watcher is installed, the value of the cell is pushed to the element ("Always push Ref value
  to DOM initially"), and with \<open>reflect === true\<close> the attribute is read back into the cell
  ("then pull DOM value back into Ref afterward"). \<open>mountedCallback\<close> is the attach; when it
  runs (\<open>onMounted\<close>, the \<open>tick\<close> option) and the release in \<open>onUnmounted\<close> are not part of the
  model.
\<close>

definition initial_push :: "host \<Rightarrow> nat \<Rightarrow> EffectiveConfig \<Rightarrow> world \<Rightarrow> world" where
  "initial_push h tgt config w =
     (let attrName = e_attribute config;
          initialRefValue = cells w (e_ref config);
          currentDomRawValue = getAttribute tgt attrName w
      in if e_type config = Some type_boolean then
           (let initialRefPresence = (initialRefValue = Bool True) in
            if hasAttribute tgt attrName w \<noteq> initialRefPresence then
              (if initialRefPresence then setAttribute tgt attrName '''' w
               else removeAttribute tgt attrName w)
            else w)
         else
           (let desiredDomValueInitially =
                  (if initialRefValue = Null \<or> initialRefValue = Undefined then None
                   else Some (String h initialRefValue))
            in if currentDomRawValue \<noteq> desiredDomValueInitially then
                 (case desiredDomValueInitially of
                    None \<Rightarrow> removeAttribute tgt attrName w
                  | Some v \<Rightarrow> setAttribute tgt attrName v w)
               else w))"

definition initial_pull :: "host \<Rightarrow> nat \<Rightarrow> EffectiveConfig \<Rightarrow> world \<Rightarrow> world" where
  "initial_pull h tgt config w =
     (let attrName = e_attribute config in
      if e_reflect config = Some True then
        (let currentDomRawValueAfterInitialSync = getAttribute tgt attrName w;
             interpretedValueFromDom =
               (if e_type config = Some type_boolean then Bool (hasAttribute tgt attrName w)
                else if e_type config = Some type_number then
                  (let numValue = Number h (raw_value currentDomRawValueAfterInitialSync) in
                   if currentDomRawValueAfterInitialSync = None then Null
                   else if isNaN numValue then Null else Num numValue)
                else raw_value currentDomRawValueAfterInitialSync)
         in if \<not> strict_eq (cells w (e_ref config)) interpretedValueFromDom
            then w\<lparr>cells := (cells w)(e_ref config := interpretedValueFromDom)\<rparr>
            else w)
      else w)"

definition mount_config :: "host \<Rightarrow> nat \<Rightarrow> EffectiveConfig \<Rightarrow> world \<Rightarrow> world" where
  "mount_config h tgt config w =
     initial_pull h tgt config
       (initial_push h tgt config (w\<lparr>refToDomSyncStops := refToDomSyncStops w @ [config]\<rparr>))"

fun forEach_mount ::
  "host \<Rightarrow> nat \<Rightarrow> (string \<times> EffectiveConfig) list \<Rightarrow> world \<Rightarrow> world" where
  "forEach_mount h tgt [] w = w"
| "forEach_mount h tgt (kc # rest) w = forEach_mount h tgt rest (mount_config h tgt (snd kc) w)"

text \<open>
  \<open>mountedCallback\<close>: every binding in the order of the table, then the observer is created
  and observes the element with the keys of the table as attribute filter.
\<close>

definition mountedCallback ::
  "host \<Rightarrow> (string \<times> EffectiveConfig) list \<Rightarrow> nat \<Rightarrow> world \<Rightarrow> world" where
  "mountedCallback h m tgt w = (forEach_mount h tgt m w)\<lparr>observer := Some (tgt, map fst m)\<rparr>"

section \<open>Inbound sync: the MutationObserver callback\<close>

text \<open>
  The body of the loop over the records. \<open>onAttributeChange\<close> says whether the option is
  given; a call of it is recorded in \<open>notified\<close> with its four arguments.
\<close>

definition observer_record ::
  "bool \<Rightarrow> (string \<times> EffectiveConfig) list \<Rightarrow> nat \<Rightarrow> MutationRecord \<Rightarrow> world \<Rightarrow> world" where
  "observer_record onAttributeChange m currentTarget record w =
     (if mtype record = attributes \<and> target record = currentTarget then
        (case map_of m (attributeName record) of
           None \<Rightarrow> w
         | Some config \<Rightarrow>
             (let newValue = getAttribute currentTarget (attributeName record) w;
                  interpretedNewValue =
                    (if e_type config = Some type_boolean
                     then Bool (hasAttribute currentTarget (attributeName record) w)
                     else raw_value newValue);
                  w1 = (if \<not> isUpdatingDomFromRef w \<and> onAttributeChange
                           \<and> oldValue record \<noteq> newValue
                        then w\<lparr>notified := notified w @
                               [(attributeName record, oldValue record, newValue,
                                 interpretedNewValue)]\<rparr>
                        else w)
              in if e_reflect config = Some True then
                   (if \<not> strict_eq (cells w1 (e_ref config)) interpretedNewValue
                    then w1\<lparr>cells := (cells w1)(e_ref config := interpretedNewValue)\<rparr>
                    else w1)
                 else w1))
      else w)"

fun observer_loop ::
  "bool \<Rightarrow> (string \<times> EffectiveConfig) list \<Rightarrow> nat \<Rightarrow> MutationRecord list \<Rightarrow> world \<Rightarrow> world" where
  "observer_loop onAttributeChange m currentTarget [] w = w"
| "observer_loop onAttributeChange m currentTarget (record # records) w =
     observer_loop onAttributeChange m currentTarget records
       (observer_record onAttributeChange m currentTarget record w)"

definition observer_callback ::
  "bool \<Rightarrow> (string \<times> EffectiveConfig) list \<Rightarrow> MutationRecord list \<Rightarrow> world \<Rightarrow> world" where
  "observer_callback onAttributeChange m records w =
     (case targetRef w of
        None \<Rightarrow> w
      | Some currentTarget \<Rightarrow> observer_loop onAttributeChange m currentTarget records w)"

text \<open>
  The delivery of the queued records: a microtask, so it runs before any timer callback that
  was set while the records were queued.
\<close>

definition deliver :: "bool \<Rightarrow> (string \<times> EffectiveConfig) list \<Rightarrow> world \<Rightarrow> world" where
  "deliver onAttributeChange m w =
     (if pending w = [] then w
      else observer_callback onAttributeChange m (pending w) (w\<lparr>pending := []\<rparr>))"

text \<open>The entry a declaration that passes the test puts into the table.\<close>

definition binding_of :: "AttributeRefConfig option \<Rightarrow> string \<times> EffectiveConfig" where
  "binding_of c = (e_attribute (effectiveConfig (the c)), effectiveConfig (the c))"

section \<open>A host and a world for the examples\<close>

text \<open>
  A host that agrees with ECMAScript on the strings made of decimal digits, on the empty
  string, on strings with a character that occurs in no numeric literal (such as \<open>abc\<close>), and
  on the small non-negative integers. It only instantiates the host in closed examples; the
  theorems hold for every host.
\<close>

fun digit_value :: "char \<Rightarrow> nat option" where
  "digit_value c = (if c \<in> set ''0123456789'' then Some (of_char c - 48) else None)"

fun parse_digits :: "string \<Rightarrow> nat \<Rightarrow> nat option" where
  "parse_digits [] acc = Some acc"
| "parse_digits (c # cs) acc =
     (case digit_value c of None \<Rightarrow> None | Some d \<Rightarrow> parse_digits cs (10 * acc + d))"

fun print_digits :: "nat \<Rightarrow> string" where
  "print_digits n =
     (if n < 10 then [''0123456789'' ! n] else print_digits (n div 10) @ [''0123456789'' ! (n mod 10)])"

definition decimal_host :: host where
  "decimal_host =
     \<lparr>NumberOfString = (\<lambda>s. if s = [] then Fin 0
                             else case parse_digits s 0 of None \<Rightarrow> NaN | Some n \<Rightarrow> Fin (of_nat n)),
      StringOfNumber = (\<lambda>n. case n of
                             NaN \<Rightarrow> ''NaN'' | PosInf \<Rightarrow> ''Infinity'' | NegInf \<Rightarrow> ''-Infinity''
                           | Fin q \<Rightarrow> print_digits (nat \<lfloor>q\<rfloor>))\<rparr>"

text \<open>A world before \<open>useReflectAttribute\<close> is called: no element is referenced, nothing is queued.\<close>

definition initial_world :: world where
  "initial_world =
     \<lparr>cells = (\<lambda>_. Undefined), elements = (\<lambda>_. Map.empty), targetRef = None,
      isUpdatingDomFromRef = False, observer = None, refToDomSyncStops = [], pending = [],
      timers = 0, notified = [], console = []\<rparr>"

text \<open>
  The example of the README: four bindings on one button, whose attributes were written
  before the initial sync runs (\<open>tick: 'after'\<close>).
\<close>

definition readme_attributes :: "AttributeRefConfig option list" where
  "readme_attributes =
     [Some \<lparr>attribute = Some ''disabled'', ref = Some 2, type = Given type_boolean,
            reflect = Given True\<rparr>,
      Some \<lparr>attribute = Some ''selected'', ref = Some 1, type = Given type_boolean,
            reflect = Given False\<rparr>,
      Some \<lparr>attribute = Some ''text'', ref = Some 0, type = Given type_string,
            reflect = Given True\<rparr>,
      Some \<lparr>attribute = Some ''paragraph'', ref = Some 3, type = Given type_string,
            reflect = Given False\<rparr>]"

definition selected_binding :: EffectiveConfig where
  "selected_binding =
     \<lparr>e_attribute = ''selected'', e_ref = 1, e_type = Some type_boolean, e_reflect = Some False\<rparr>"

definition text_binding :: EffectiveConfig where
  "text_binding =
     \<lparr>e_attribute = ''text'', e_ref = 0, e_type = Some type_string, e_reflect = Some True\<rparr>"

definition disabled_binding :: EffectiveConfig where
  "disabled_binding =
     \<lparr>e_attribute = ''disabled'', e_ref = 2, e_type = Some type_boolean, e_reflect = Some True\<rparr>"

definition paragraph_binding :: EffectiveConfig where
  "paragraph_binding =
     \<lparr>e_attribute = ''paragraph'', e_ref = 3, e_type = Some type_string, e_reflect = Some False\<rparr>"

definition readme_table :: "(string \<times> EffectiveConfig) list" where
  "readme_table =
     [(''disabled'', disabled_binding), (''selected'', selected_binding),
      (''text'', text_binding), (''paragraph'', paragraph_binding)]"

definition authored_world :: world where
  "authored_world =
     initial_world
       \<lparr>cells := (\<lambda>_. Undefined)
          (0 := Str ''default text'', 1 := Bool False, 2 := Bool False, 3 := Str ''default text''),
        elements := (\<lambda>_. Map.empty)
          (0 := [''disabled'' \<mapsto> [], ''selected'' \<mapsto> [], ''text'' \<mapsto> ''NEW TEXT'',
                 ''paragraph'' \<mapsto> ''NEW TEXT'']),
        targetRef := Some 0\<rparr>"

text \<open>The same world after every attribute has been removed from the button.\<close>

definition stripped_world :: world where
  "stripped_world = authored_world\<lparr>elements := (\<lambda>_. Map.empty)\<rparr>"

text \<open>A Number binding with \<open>reflect: true\<close>, on an element whose attribute \<open>count\<close> is \<open>s\<close>.\<close>

definition count_binding :: EffectiveConfig where
  "count_binding =
     \<lparr>e_attribute = ''count'', e_ref = 4, e_type = Some type_number, e_reflect = Some True\<rparr>"

definition count_world :: "string \<Rightarrow> world" where
  "count_world s =
     initial_world
       \<lparr>cells := (\<lambda>_. Null),
        elements := (\<lambda>_. Map.empty)(0 := [''count'' \<mapsto> s]),
        targetRef := Some 0,
        observer := Some (0, [''count''])\<rparr>"

text \<open>The same Number binding with \<open>reflect: false\<close>.\<close>

definition one_way_count_binding :: EffectiveConfig where
  "one_way_count_binding =
     \<lparr>e_attribute = ''count'', e_ref = 4, e_type = Some type_number, e_reflect = Some False\<rparr>"

text \<open>
  The declaration \<open>{attribute: 'text', ref: textProp, type: undefined, reflect: undefined}\<close>,
  and the one with both properties left out.
\<close>

definition undefined_fields_declaration :: AttributeRefConfig where
  "undefined_fields_declaration =
     \<lparr>attribute = Some ''text'', ref = Some 0, type = Given_undefined,
      reflect = Given_undefined\<rparr>"

definition omitted_fields_declaration :: AttributeRefConfig where
  "omitted_fields_declaration =
     \<lparr>attribute = Some ''text'', ref = Some 0, type = Omitted, reflect = Omitted\<rparr>"

section \<open>Properties of the configuration table\<close>

lemma config_step_accepted:
  "accepted c \<Longrightarrow> config_step h c mw =
     (AList.update (fst (binding_of c)) (snd (binding_of c)) (fst mw),
      coerce_ref h (effectiveConfig (the c)) (snd mw))"
  by (simp add: config_step_def Let_def binding_of_def)

lemma config_step_rejected:
  "\<not> accepted c \<Longrightarrow> config_step h c mw = (fst mw, (snd mw)\<lparr>console := console (snd mw) @ [c]\<rparr>)"
  by (simp add: config_step_def)

lemma forEach_config_map_of:
  "map_of (fst (forEach_config h cs mw)) =
     map_of (fst mw) ++ map_of (rev (map binding_of (filter accepted cs)))"
proof (induction cs arbitrary: mw)
  case Nil
  show ?case by simp
next
  case (Cons c cs)
  show ?case
  proof (cases "accepted c")
    case True
    have "map_of (fst (config_step h c mw)) = map_of (fst mw) ++ map_of [binding_of c]"
      using True by (simp add: config_step_accepted update_conv')
    moreover have "map_of (rev (map binding_of (filter accepted (c # cs)))) =
        map_of [binding_of c] ++ map_of (rev (map binding_of (filter accepted cs)))"
      using True by (simp only: filter.simps list.map rev.simps map_of_append if_True)
    ultimately show ?thesis
      by (simp only: forEach_config.simps Cons.IH map_add_assoc)
  next
    case False
    then show ?thesis by (simp add: Cons.IH config_step_rejected)
  qed
qed


lemma coerce_ref_console: "console (coerce_ref h ec w) = console w"
  by (simp add: coerce_ref_def Let_def)

lemma forEach_config_console:
  "console (snd (forEach_config h cs mw)) = console (snd mw) @ filter (\<lambda>c. \<not> accepted c) cs"
proof (induction cs arbitrary: mw)
  case Nil
  show ?case by simp
next
  case (Cons c cs)
  show ?case
    by (cases "accepted c")
       (simp_all add: Cons.IH config_step_accepted config_step_rejected coerce_ref_console)
qed

lemma coerce_ref_cells:
  "cells w = cells w2 \<Longrightarrow> cells (coerce_ref h ec w) = cells (coerce_ref h ec w2)"
  by (simp add: coerce_ref_def Let_def)

lemma forEach_config_filter:
  "fst mw = fst mw2 \<Longrightarrow> cells (snd mw) = cells (snd mw2) \<Longrightarrow>
   fst (forEach_config h cs mw) = fst (forEach_config h (filter accepted cs) mw2) \<and>
   cells (snd (forEach_config h cs mw)) = cells (snd (forEach_config h (filter accepted cs) mw2))"
proof (induction cs arbitrary: mw mw2)
  case Nil
  then show ?case by simp
next
  case (Cons c cs)
  show ?case
  proof (cases "accepted c")
    case True
    have 1: "fst (config_step h c mw) = fst (config_step h c mw2)"
      using True Cons.prems(1) by (simp add: config_step_accepted)
    have 2: "cells (snd (config_step h c mw)) = cells (snd (config_step h c mw2))"
      using True coerce_ref_cells [OF Cons.prems(2)] by (simp add: config_step_accepted)
    show ?thesis using True Cons.IH [OF 1 2] by simp
  next
    case False
    have 1: "fst (config_step h c mw) = fst mw2"
      using False Cons.prems(1) by (simp add: config_step_rejected)
    have 2: "cells (snd (config_step h c mw)) = cells (snd mw2)"
      using False Cons.prems(2) by (simp add: config_step_rejected)
    show ?thesis using False Cons.IH [OF 1 2] by simp
  qed
qed

lemma fst_binding_of: "fst (binding_of c) = the (attribute (the c))"
  by (simp add: binding_of_def effectiveConfig_def)

lemma forEach_config_keys:
  "fst ` set (fst (forEach_config h cs mw)) =
     fst ` set (fst mw) \<union> (\<lambda>c. the (attribute (the c))) ` set (filter accepted cs)"
proof -
  have "fst ` set (fst (forEach_config h cs mw)) = dom (map_of (fst (forEach_config h cs mw)))"
    by (simp only: dom_map_of_conv_image_fst)
  also have "\<dots> = dom (map_of (fst mw)) \<union> dom (map_of (rev (map binding_of (filter accepted cs))))"
    by (simp only: forEach_config_map_of dom_map_add Un_commute)
  also have "dom (map_of (rev (map binding_of (filter accepted cs)))) =
      (\<lambda>c. the (attribute (the c))) ` set (filter accepted cs)"
    by (simp only: dom_map_of_conv_image_fst set_rev set_map image_image fst_binding_of)
  finally show ?thesis by (simp only: dom_map_of_conv_image_fst)
qed

lemma forEach_config_append:
  "forEach_config h (xs @ ys) mw = forEach_config h ys (forEach_config h xs mw)"
  by (induction xs arbitrary: mw) simp_all

lemma coerce_ref_other: "e_ref ec \<noteq> r \<Longrightarrow> cells (coerce_ref h ec w) r = cells w r"
  by (simp add: coerce_ref_def Let_def)

lemma config_step_cells_other:
  "accepted c \<longrightarrow> ref (the c) \<noteq> Some r \<Longrightarrow> cells (snd (config_step h c mw)) r = cells (snd mw) r"
proof (cases "accepted c")
  case True
  assume "accepted c \<longrightarrow> ref (the c) \<noteq> Some r"
  with True have "e_ref (effectiveConfig (the c)) \<noteq> r"
    by (cases c) (auto simp: effectiveConfig_def)
  then show ?thesis using True by (simp add: config_step_accepted coerce_ref_other)
next
  case False
  then show ?thesis by (simp add: config_step_rejected)
qed

lemma forEach_config_cells_other:
  "\<forall>d\<in>set ys. accepted d \<longrightarrow> ref (the d) \<noteq> Some r \<Longrightarrow>
   cells (snd (forEach_config h ys mw)) r = cells (snd mw) r"
proof (induction ys arbitrary: mw)
  case Nil
  show ?case by simp
next
  case (Cons d ys)
  have "cells (snd (forEach_config h ys (config_step h d mw))) r = cells (snd (config_step h d mw)) r"
    using Cons.IH Cons.prems by simp
  also have "\<dots> = cells (snd mw) r"
    using Cons.prems by (simp add: config_step_cells_other)
  finally show ?case by simp
qed

lemma coerce_ref_boolean:
  "e_type ec = Some type_boolean \<Longrightarrow> \<not> isType (cells w (e_ref ec)) (Some T_boolean) \<Longrightarrow>
   \<not> isType (cells w (e_ref ec)) None \<Longrightarrow> \<not> isType (cells w (e_ref ec)) (Some T_undefined) \<Longrightarrow>
   cells (coerce_ref h ec w) (e_ref ec) = Bool (Boolean (cells w (e_ref ec)))"
  by (simp add: coerce_ref_def Let_def)

lemma coerce_ref_number:
  "e_type ec = Some type_number \<Longrightarrow> \<not> isType (cells w (e_ref ec)) (Some T_boolean) \<Longrightarrow>
   \<not> isType (cells w (e_ref ec)) None \<Longrightarrow> \<not> isType (cells w (e_ref ec)) (Some T_undefined) \<Longrightarrow>
   cells (coerce_ref h ec w) (e_ref ec) =
     (if isNaN (Number h (cells w (e_ref ec))) then Null else Num (Number h (cells w (e_ref ec))))"
  by (simp add: coerce_ref_def Let_def)

lemma accepted_name: "accepted d \<Longrightarrow> fst (binding_of d) \<noteq> []"
  by (cases d) (auto simp: binding_of_def effectiveConfig_def split: option.splits)

lemma table_lookup_last:
  assumes acc: "accepted (Some c)"
    and later: "\<forall>d\<in>set ys. accepted d \<longrightarrow> attribute (the d) \<noteq> attribute c"
  shows "map_of (fst (makeAttributeConfigMap h (xs @ Some c # ys) w)) (the (attribute c))
           = Some (effectiveConfig c)"
proof -
  let ?B = "\<lambda>cs. rev (map binding_of (filter accepted cs))"
  have name: "fst (binding_of (Some c)) = the (attribute c)"
    by (simp add: fst_binding_of)
  have "the (attribute c) \<notin> fst ` set (?B ys)"
  proof
    assume "the (attribute c) \<in> fst ` set (?B ys)"
    then obtain d where d: "d \<in> set ys" "accepted d" "fst (binding_of d) = the (attribute c)"
      by auto
    from d(2) obtain a where "attribute (the d) = Some a"
      by (cases d) (auto split: option.splits)
    moreover from acc obtain b where "attribute c = Some b"
      by (auto split: option.splits)
    ultimately show False using d later by (auto simp: fst_binding_of)
  qed
  then have none: "map_of (?B ys) (the (attribute c)) = None"
    by (simp add: map_of_eq_None_iff)
  have "?B (xs @ Some c # ys) = ?B ys @ binding_of (Some c) # ?B xs"
    using acc by simp
  then have "map_of (?B (xs @ Some c # ys)) (the (attribute c)) = Some (snd (binding_of (Some c)))"
    using none name by (simp add: map_add_def)
  then show ?thesis
    by (simp add: makeAttributeConfigMap_def forEach_config_map_of binding_of_def)
qed

lemma readme_table_made:
  "fst (makeAttributeConfigMap h readme_attributes w) = readme_table"
  by (simp add: makeAttributeConfigMap_def config_step_def effectiveConfig_def Let_def
      readme_attributes_def readme_table_def disabled_binding_def selected_binding_def
      text_binding_def paragraph_binding_def)

text \<open>
  Claim C7. While the table is built, an accepted declaration whose cell holds, when the
  declaration is reached, a value \<open>v\<close> that is neither a boolean, \<open>null\<close> nor \<open>undefined\<close>
  replaces it: a Boolean declaration by the truthiness \<open>Boolean(v)\<close> (the string \<open>yes\<close>
  becomes \<open>true\<close>), a Number declaration by \<open>Number(v)\<close>, and by \<open>null\<close> when that is
  \<open>NaN\<close>. The cell still holds this value when the table is complete, that is before the
  first reconciliation, as long as no later accepted declaration binds the same cell.
\<close>

theorem coercion_on_registration:
  assumes acc: "accepted (Some c)" and r: "ref c = Some r"
    and later: "\<forall>d\<in>set ys. accepted d \<longrightarrow> ref (the d) \<noteq> Some r"
    and v: "v = cells (snd (makeAttributeConfigMap h xs w)) r"
    and nb: "\<not> isType v (Some T_boolean)" and nn: "\<not> isType v None"
    and nu: "\<not> isType v (Some T_undefined)"
  shows "(type c = Given type_boolean \<longrightarrow>
            cells (snd (makeAttributeConfigMap h (xs @ Some c # ys) w)) r = Bool (Boolean v)) \<and>
         (type c = Given type_number \<longrightarrow>
            cells (snd (makeAttributeConfigMap h (xs @ Some c # ys) w)) r =
              (if isNaN (Number h v) then Null else Num (Number h v)))"
proof -
  define mw where "mw = forEach_config h xs ([], w)"
  define ec where "ec = effectiveConfig c"
  have er: "e_ref ec = r" using r by (simp add: ec_def effectiveConfig_def)
  have v': "cells (snd mw) (e_ref ec) = v"
    using v er by (simp add: mw_def makeAttributeConfigMap_def)
  have final: "cells (snd (makeAttributeConfigMap h (xs @ Some c # ys) w)) r =
      cells (coerce_ref h ec (snd mw)) (e_ref ec)"
  proof -
    have "makeAttributeConfigMap h (xs @ Some c # ys) w =
        forEach_config h ys (config_step h (Some c) mw)"
      by (simp add: makeAttributeConfigMap_def forEach_config_append mw_def)
    then have "cells (snd (makeAttributeConfigMap h (xs @ Some c # ys) w)) r =
        cells (snd (config_step h (Some c) mw)) r"
      using forEach_config_cells_other [OF later] by simp
    also have "\<dots> = cells (coerce_ref h ec (snd mw)) (e_ref ec)"
      using acc er by (simp add: config_step_accepted ec_def)
    finally show ?thesis .
  qed
  have "type c = Given type_boolean \<Longrightarrow> e_type ec = Some type_boolean"
    and "type c = Given type_number \<Longrightarrow> e_type ec = Some type_number"
    by (simp_all add: ec_def effectiveConfig_def)
  then show ?thesis
    using nb nn nu coerce_ref_boolean [of ec "snd mw" h] coerce_ref_number [of ec "snd mw" h]
    by (simp add: final v')
qed

theorem coercion_on_registration_witness:
  "accepted (Some \<lparr>attribute = Some ''selected'', ref = Some 0, type = Given type_boolean,
                   reflect = Omitted\<rparr>) \<and>
   cells (snd (makeAttributeConfigMap decimal_host [] (initial_world\<lparr>cells := (\<lambda>_. Str ''yes'')\<rparr>))) 0
     = Str ''yes'' \<and>
   cells (snd (makeAttributeConfigMap decimal_host
      [Some \<lparr>attribute = Some ''selected'', ref = Some 0, type = Given type_boolean,
             reflect = Omitted\<rparr>]
      (initial_world\<lparr>cells := (\<lambda>_. Str ''yes'')\<rparr>))) 0 = Bool True"
  using coercion_on_registration
    [of "\<lparr>attribute = Some ''selected'', ref = Some 0, type = Given type_boolean,
          reflect = Omitted\<rparr>" 0 "[]" "Str ''yes''" decimal_host "[]"
        "initial_world\<lparr>cells := (\<lambda>_. Str ''yes'')\<rparr>"]
  by (simp add: makeAttributeConfigMap_def)

text \<open>
  An accepted declaration that is the last one for its attribute name is in the table under
  that name with its own cell. A property whose key is absent gets the default (String,
  \<open>true\<close>), a property written with a value keeps it, and a property written as \<open>undefined\<close>
  stays \<open>undefined\<close>: the spread \<open>...config\<close> comes after the defaults and overrides them.
\<close>

lemma effective_fields_of_declaration:
  assumes "accepted (Some c)"
    and "\<forall>d\<in>set ys. accepted d \<longrightarrow> attribute (the d) \<noteq> attribute c"
  shows "\<exists>ec. map_of (fst (makeAttributeConfigMap h (xs @ Some c # ys) w)) (the (attribute c))
               = Some ec \<and>
           e_attribute ec = the (attribute c) \<and> e_ref ec = the (ref c) \<and>
           (type c = Omitted \<longrightarrow> e_type ec = Some type_string) \<and>
           (reflect c = Omitted \<longrightarrow> e_reflect ec = Some True) \<and>
           (\<forall>t. type c = Given t \<longrightarrow> e_type ec = Some t) \<and>
           (\<forall>b. reflect c = Given b \<longrightarrow> e_reflect ec = Some b) \<and>
           (type c = Given_undefined \<longrightarrow> e_type ec = None) \<and>
           (reflect c = Given_undefined \<longrightarrow> e_reflect ec = None)"
  using table_lookup_last [OF assms] by (simp add: effectiveConfig_def)

text \<open>
  Claim C8 says that a binding whose optional fields are not supplied has the effective type
  String and the effective reflect flag \<open>true\<close>. The defaults \<open>config.reflect ?? true\<close> and
  \<open>config.type ?? 'string'\<close> treat \<open>undefined\<close> as not supplied, and the table is typed
  \<open>Required<AttributeRefConfig>\<close>; but for the declaration that writes both fields as
  \<open>undefined\<close> the entry of the table has neither a type nor a reflect flag. The binding does
  not reflect: a record of the attribute \<open>text="NEW TEXT"\<close> leaves the cell at
  \<open>default text\<close>, where the same declaration with the two keys absent takes \<open>NEW TEXT\<close>.
\<close>

theorem explicit_undefined_defeats_defaults:
  "accepted (Some undefined_fields_declaration) \<and>
   fst (makeAttributeConfigMap decimal_host [Some undefined_fields_declaration] authored_world)
     = [(''text'', \<lparr>e_attribute = ''text'', e_ref = 0, e_type = None, e_reflect = None\<rparr>)] \<and>
   fst (makeAttributeConfigMap decimal_host [Some omitted_fields_declaration] authored_world)
     = [(''text'', \<lparr>e_attribute = ''text'', e_ref = 0, e_type = Some type_string,
                    e_reflect = Some True\<rparr>)] \<and>
   cells (observer_callback True
            (fst (makeAttributeConfigMap decimal_host [Some undefined_fields_declaration]
                    authored_world))
            [\<lparr>mtype = attributes, target = 0, attributeName = ''text'', oldValue = None\<rparr>]
            authored_world) 0 = Str ''default text'' \<and>
   cells (observer_callback True
            (fst (makeAttributeConfigMap decimal_host [Some omitted_fields_declaration]
                    authored_world))
            [\<lparr>mtype = attributes, target = 0, attributeName = ''text'', oldValue = None\<rparr>]
            authored_world) 0 = Str ''NEW TEXT''"
  by (simp add: makeAttributeConfigMap_def config_step_def effectiveConfig_def coerce_ref_def
      Let_def observer_callback_def observer_record_def getAttribute_def hasAttribute_def
      strict_eq_def undefined_fields_declaration_def omitted_fields_declaration_def
      authored_world_def initial_world_def)

text \<open>
  Claim C9. A declaration without attribute name or without cell does not pass the test.
  For every list of declarations, exactly the declarations that do not pass are reported by
  \<open>console.warn\<close>, in order; the table and the cells are the ones that the accepted
  declarations alone produce, and the keys of the table are the attribute names of all the
  accepted declarations: a rejected declaration aborts nothing.
\<close>

theorem invalid_declarations_skipped:
  "(\<forall>c. attribute c = None \<or> ref c = None \<longrightarrow> \<not> accepted (Some c)) \<and>
   console (snd (makeAttributeConfigMap h attrs w)) = console w @ filter (\<lambda>c. \<not> accepted c) attrs \<and>
   fst (makeAttributeConfigMap h attrs w) = fst (makeAttributeConfigMap h (filter accepted attrs) w) \<and>
   cells (snd (makeAttributeConfigMap h attrs w))
     = cells (snd (makeAttributeConfigMap h (filter accepted attrs) w)) \<and>
   fst ` set (fst (makeAttributeConfigMap h attrs w))
     = (\<lambda>c. the (attribute (the c))) ` set (filter accepted attrs)"
proof -
  have "\<forall>c. attribute c = None \<or> ref c = None \<longrightarrow> \<not> accepted (Some c)"
    by auto
  moreover have "console (snd (makeAttributeConfigMap h attrs w))
      = console w @ filter (\<lambda>c. \<not> accepted c) attrs"
    by (simp add: makeAttributeConfigMap_def forEach_config_console)
  moreover have "fst (makeAttributeConfigMap h attrs w)
        = fst (makeAttributeConfigMap h (filter accepted attrs) w) \<and>
      cells (snd (makeAttributeConfigMap h attrs w))
        = cells (snd (makeAttributeConfigMap h (filter accepted attrs) w))"
    unfolding makeAttributeConfigMap_def by (rule forEach_config_filter) simp_all
  moreover have "fst ` set (fst (makeAttributeConfigMap h attrs w))
      = (\<lambda>c. the (attribute (the c))) ` set (filter accepted attrs)"
    by (simp add: makeAttributeConfigMap_def forEach_config_keys)
  ultimately show ?thesis by blast
qed

theorem invalid_declarations_skipped_witness:
  "attribute \<lparr>attribute = None, ref = Some 1, type = Omitted, reflect = Omitted\<rparr> = None \<and>
   \<not> accepted (Some \<lparr>attribute = None, ref = Some 1, type = Omitted, reflect = Omitted\<rparr>) \<and>
   console (snd (makeAttributeConfigMap decimal_host
      [Some \<lparr>attribute = None, ref = Some 1, type = Omitted, reflect = Omitted\<rparr>,
       Some \<lparr>attribute = Some ''text'', ref = Some 0, type = Omitted, reflect = Omitted\<rparr>]
      initial_world))
     = [Some \<lparr>attribute = None, ref = Some 1, type = Omitted, reflect = Omitted\<rparr>] \<and>
   fst ` set (fst (makeAttributeConfigMap decimal_host
      [Some \<lparr>attribute = None, ref = Some 1, type = Omitted, reflect = Omitted\<rparr>,
       Some \<lparr>attribute = Some ''text'', ref = Some 0, type = Omitted, reflect = Omitted\<rparr>]
      initial_world)) = {''text''}"
proof -
  let ?bad = "\<lparr>attribute = None, ref = Some 1, type = Omitted, reflect = Omitted\<rparr>"
  let ?attrs = "[Some ?bad,
     Some \<lparr>attribute = Some ''text'', ref = Some 0, type = Omitted, reflect = Omitted\<rparr>]"
  note C = invalid_declarations_skipped [of decimal_host ?attrs initial_world]
  from C have "attribute ?bad = None \<or> ref ?bad = None \<longrightarrow> \<not> accepted (Some ?bad)"
    by blast
  moreover from C have "console (snd (makeAttributeConfigMap decimal_host ?attrs initial_world))
      = console initial_world @ filter (\<lambda>c. \<not> accepted c) ?attrs"
    by blast
  moreover from C have "fst ` set (fst (makeAttributeConfigMap decimal_host ?attrs initial_world))
      = (\<lambda>c. the (attribute (the c))) ` set (filter accepted ?attrs)"
    by blast
  ultimately show ?thesis by (simp add: initial_world_def)
qed

text \<open>
  Claim C10. A declaration whose attribute name is the empty string, or whose cell is a falsy
  value (no ref), is rejected by the truthiness test exactly like the declaration with the
  name missing: it is reported, the table and the cells are left as they are, the result of
  the whole list is the one of the list without it, and the empty name is never a key of
  the table.
\<close>

theorem falsy_fields_rejected:
  assumes "attribute c = Some [] \<or> ref c = None"
  shows "config_step h (Some c) mw = (fst mw, (snd mw)\<lparr>console := console (snd mw) @ [Some c]\<rparr>) \<and>
         config_step h (Some (c\<lparr>attribute := None\<rparr>)) mw
           = (fst mw, (snd mw)\<lparr>console := console (snd mw) @ [Some (c\<lparr>attribute := None\<rparr>)]\<rparr>) \<and>
         fst (makeAttributeConfigMap h (xs @ Some c # ys) w)
           = fst (makeAttributeConfigMap h (xs @ ys) w) \<and>
         cells (snd (makeAttributeConfigMap h (xs @ Some c # ys) w))
           = cells (snd (makeAttributeConfigMap h (xs @ ys) w)) \<and>
         [] \<notin> fst ` set (fst (makeAttributeConfigMap h (xs @ Some c # ys) w))"
proof -
  have rej: "\<not> accepted (Some c)" using assms by auto
  have rej': "\<not> accepted (Some (c\<lparr>attribute := None\<rparr>))" by simp
  have f: "filter accepted (xs @ Some c # ys) = filter accepted (xs @ ys)"
    using rej by simp
  have a: "fst (makeAttributeConfigMap h (xs @ Some c # ys) w)
        = fst (makeAttributeConfigMap h (filter accepted (xs @ Some c # ys)) w) \<and>
      cells (snd (makeAttributeConfigMap h (xs @ Some c # ys) w))
        = cells (snd (makeAttributeConfigMap h (filter accepted (xs @ Some c # ys)) w))"
    unfolding makeAttributeConfigMap_def by (rule forEach_config_filter) simp_all
  have b: "fst (makeAttributeConfigMap h (xs @ ys) w)
        = fst (makeAttributeConfigMap h (filter accepted (xs @ ys)) w) \<and>
      cells (snd (makeAttributeConfigMap h (xs @ ys) w))
        = cells (snd (makeAttributeConfigMap h (filter accepted (xs @ ys)) w))"
    unfolding makeAttributeConfigMap_def by (rule forEach_config_filter) simp_all
  have keys: "fst ` set (fst (makeAttributeConfigMap h (xs @ Some c # ys) w))
      = (\<lambda>c. the (attribute (the c))) ` set (filter accepted (xs @ Some c # ys))"
    by (simp only: makeAttributeConfigMap_def forEach_config_keys) simp
  have k: "[] \<notin> fst ` set (fst (makeAttributeConfigMap h (xs @ Some c # ys) w))"
  proof
    assume "[] \<in> fst ` set (fst (makeAttributeConfigMap h (xs @ Some c # ys) w))"
    then obtain d where d: "d \<in> set (filter accepted (xs @ Some c # ys))"
      and e: "the (attribute (the d)) = []"
      unfolding keys by force
    from d have "accepted d" by (simp only: set_filter mem_Collect_eq)
    then show False using e accepted_name [of d] by (simp add: fst_binding_of)
  qed
  show ?thesis
    using a b k by (simp only: f config_step_rejected [OF rej] config_step_rejected [OF rej'])
       simp
qed

theorem falsy_fields_rejected_witness:
  "attribute \<lparr>attribute = Some [], ref = Some 1, type = Omitted, reflect = Omitted\<rparr> = Some [] \<and>
   config_step decimal_host
      (Some \<lparr>attribute = Some [], ref = Some 1, type = Omitted, reflect = Omitted\<rparr>)
      ([], initial_world)
     = ([], initial_world\<lparr>console :=
          [Some \<lparr>attribute = Some [], ref = Some 1, type = Omitted, reflect = Omitted\<rparr>]\<rparr>) \<and>
   fst (makeAttributeConfigMap decimal_host
      [Some \<lparr>attribute = Some [], ref = Some 1, type = Omitted, reflect = Omitted\<rparr>,
       Some \<lparr>attribute = Some ''text'', ref = Some 0, type = Omitted, reflect = Omitted\<rparr>]
      initial_world)
     = fst (makeAttributeConfigMap decimal_host
      [Some \<lparr>attribute = Some ''text'', ref = Some 0, type = Omitted, reflect = Omitted\<rparr>]
      initial_world)"
proof -
  let ?bad = "\<lparr>attribute = Some [], ref = Some 1, type = Omitted, reflect = Omitted\<rparr>"
  let ?good = "\<lparr>attribute = Some ''text'', ref = Some 0, type = Omitted, reflect = Omitted\<rparr>"
  have hyp: "attribute ?bad = Some [] \<or> ref ?bad = None" by simp
  note C = falsy_fields_rejected
    [OF hyp, of decimal_host "([], initial_world)" "[]" "[Some ?good]" initial_world]
  from C have "config_step decimal_host (Some ?bad) ([], initial_world)
      = ([], initial_world\<lparr>console := console initial_world @ [Some ?bad]\<rparr>)"
    by simp
  moreover from C have "fst (makeAttributeConfigMap decimal_host ([] @ Some ?bad # [Some ?good])
        initial_world)
      = fst (makeAttributeConfigMap decimal_host ([] @ [Some ?good]) initial_world)"
    by blast
  ultimately show ?thesis by (simp add: initial_world_def)
qed

section \<open>Properties of the synchronisation\<close>

lemma queue_record_fields:
  "cells (queue_record e n w) = cells w"
  "elements (queue_record e n w) = elements w"
  "targetRef (queue_record e n w) = targetRef w"
  "isUpdatingDomFromRef (queue_record e n w) = isUpdatingDomFromRef w"
  "observer (queue_record e n w) = observer w"
  "refToDomSyncStops (queue_record e n w) = refToDomSyncStops w"
  "timers (queue_record e n w) = timers w"
  "notified (queue_record e n w) = notified w"
  "console (queue_record e n w) = console w"
  by (simp_all add: queue_record_def split: option.splits prod.splits)

lemma setAttribute_fields:
  "cells (setAttribute e n v w) = cells w"
  "elements (setAttribute e n v w) = (elements w)(e := (elements w e)(n \<mapsto> v))"
  "targetRef (setAttribute e n v w) = targetRef w"
  "isUpdatingDomFromRef (setAttribute e n v w) = isUpdatingDomFromRef w"
  "observer (setAttribute e n v w) = observer w"
  "timers (setAttribute e n v w) = timers w"
  "notified (setAttribute e n v w) = notified w"
  "console (setAttribute e n v w) = console w"
  by (simp_all add: setAttribute_def queue_record_fields)

lemma removeAttribute_fields:
  "cells (removeAttribute e n w) = cells w"
  "elements (removeAttribute e n w) = (elements w)(e := (elements w e)(n := None))"
  "targetRef (removeAttribute e n w) = targetRef w"
  "isUpdatingDomFromRef (removeAttribute e n w) = isUpdatingDomFromRef w"
  "observer (removeAttribute e n w) = observer w"
  "timers (removeAttribute e n w) = timers w"
  "notified (removeAttribute e n w) = notified w"
  "console (removeAttribute e n w) = console w"
  by (auto simp: removeAttribute_def queue_record_fields fun_eq_iff)

lemma initial_push_attribute:
  "elements (initial_push h tgt c w) tgt (e_attribute c) =
     (if e_type c = Some type_boolean
      then (if cells w (e_ref c) = Bool True
            then (case elements w tgt (e_attribute c) of None \<Rightarrow> Some [] | Some s \<Rightarrow> Some s)
            else None)
      else (if cells w (e_ref c) = Null \<or> cells w (e_ref c) = Undefined then None
            else Some (String h (cells w (e_ref c)))))"
proof (cases "e_type c = Some type_boolean")
  case True
  then show ?thesis
    by (cases "elements w tgt (e_attribute c)")
       (simp_all add: initial_push_def Let_def getAttribute_def hasAttribute_def
          setAttribute_fields removeAttribute_fields)
next
  case False
  show ?thesis
  proof (cases "cells w (e_ref c) = Null \<or> cells w (e_ref c) = Undefined")
    case True
    with False show ?thesis
      by (cases "elements w tgt (e_attribute c)")
         (simp_all add: initial_push_def Let_def getAttribute_def removeAttribute_fields)
  next
    case nonnull: False
    with False show ?thesis
      by (cases "elements w tgt (e_attribute c) = Some (String h (cells w (e_ref c)))")
         (simp_all add: initial_push_def Let_def getAttribute_def setAttribute_fields)
  qed
qed

lemma initial_push_elements_other:
  "e \<noteq> tgt \<or> a \<noteq> e_attribute c \<Longrightarrow> elements (initial_push h tgt c w) e a = elements w e a"
  by (simp add: initial_push_def Let_def getAttribute_def hasAttribute_def
      setAttribute_fields removeAttribute_fields split: option.splits)

lemma initial_push_cells: "cells (initial_push h tgt c w) = cells w"
  by (simp add: initial_push_def Let_def setAttribute_fields removeAttribute_fields
      split: option.splits)

lemma initial_pull_elements: "elements (initial_pull h tgt c w) = elements w"
  by (simp add: initial_pull_def Let_def)

lemma initial_pull_cells_other:
  "r \<noteq> e_ref c \<Longrightarrow> cells (initial_pull h tgt c w) r = cells w r"
  by (simp add: initial_pull_def Let_def)

lemma initial_pull_no_reflect:
  "e_reflect c \<noteq> Some True \<Longrightarrow> initial_pull h tgt c w = w"
  by (simp add: initial_pull_def Let_def)

lemma initial_pull_cell:
  "e_reflect c = Some True \<Longrightarrow>
   cells (initial_pull h tgt c w) (e_ref c) =
     (if e_type c = Some type_boolean then Bool (elements w tgt (e_attribute c) \<noteq> None)
      else if e_type c = Some type_number
      then (case elements w tgt (e_attribute c) of
              None \<Rightarrow> Null
            | Some s \<Rightarrow> if isNaN (NumberOfString h s) then Null else Num (NumberOfString h s))
      else raw_value (elements w tgt (e_attribute c)))"
  by (simp add: initial_pull_def Let_def getAttribute_def hasAttribute_def strict_eq_def
      split: option.splits)

lemma mount_config_attribute:
  "elements (mount_config h tgt c w) tgt (e_attribute c) =
     (if e_type c = Some type_boolean
      then (if cells w (e_ref c) = Bool True
            then (case elements w tgt (e_attribute c) of None \<Rightarrow> Some [] | Some s \<Rightarrow> Some s)
            else None)
      else (if cells w (e_ref c) = Null \<or> cells w (e_ref c) = Undefined then None
            else Some (String h (cells w (e_ref c)))))"
  by (simp only: mount_config_def initial_pull_elements initial_push_attribute) simp

lemma mount_config_elements_other:
  "e \<noteq> tgt \<or> a \<noteq> e_attribute c \<Longrightarrow> elements (mount_config h tgt c w) e a = elements w e a"
  by (simp add: mount_config_def initial_pull_elements initial_push_elements_other)

lemma mount_config_cells_other:
  "r \<noteq> e_ref c \<Longrightarrow> cells (mount_config h tgt c w) r = cells w r"
  by (simp add: mount_config_def initial_pull_cells_other initial_push_cells)

lemma mount_config_cell_no_reflect:
  "e_reflect c \<noteq> Some True \<Longrightarrow> cells (mount_config h tgt c w) = cells w"
  by (simp add: mount_config_def initial_pull_no_reflect initial_push_cells)

lemma mount_config_cell_reflect:
  "e_reflect c = Some True \<Longrightarrow>
   cells (mount_config h tgt c w) (e_ref c) =
     (if e_type c = Some type_boolean
      then Bool (elements (mount_config h tgt c w) tgt (e_attribute c) \<noteq> None)
      else if e_type c = Some type_number
      then (case elements (mount_config h tgt c w) tgt (e_attribute c) of
              None \<Rightarrow> Null
            | Some s \<Rightarrow> if isNaN (NumberOfString h s) then Null else Num (NumberOfString h s))
      else raw_value (elements (mount_config h tgt c w) tgt (e_attribute c)))"
  by (simp only: mount_config_def initial_pull_cell initial_pull_elements)

lemma forEach_mount_append:
  "forEach_mount h tgt (xs @ ys) w = forEach_mount h tgt ys (forEach_mount h tgt xs w)"
  by (induction xs arbitrary: w) simp_all

lemma forEach_mount_frame:
  "\<forall>kc\<in>set ys. e_attribute (snd kc) \<noteq> a \<and> e_ref (snd kc) \<noteq> r \<Longrightarrow>
   elements (forEach_mount h tgt ys w) tgt a = elements w tgt a \<and>
   cells (forEach_mount h tgt ys w) r = cells w r"
proof (induction ys arbitrary: w)
  case Nil
  show ?case by simp
next
  case (Cons kc ys)
  from Cons.prems have 1: "a \<noteq> e_attribute (snd kc)" and 2: "r \<noteq> e_ref (snd kc)"
    by auto
  from Cons.prems have "\<forall>kc\<in>set ys. e_attribute (snd kc) \<noteq> a \<and> e_ref (snd kc) \<noteq> r"
    by simp
  from Cons.IH [OF this, of "mount_config h tgt (snd kc) w"] show ?case
    using 1 2 by (simp add: mount_config_elements_other mount_config_cells_other)
qed

lemma mountedCallback_split:
  assumes "\<forall>kc\<in>set ys. e_attribute (snd kc) \<noteq> e_attribute c \<and> e_ref (snd kc) \<noteq> e_ref c"
  shows "elements (mountedCallback h (xs @ (k, c) # ys) tgt w) tgt (e_attribute c)
           = elements (mount_config h tgt c (forEach_mount h tgt xs w)) tgt (e_attribute c)"
    and "cells (mountedCallback h (xs @ (k, c) # ys) tgt w) (e_ref c)
           = cells (mount_config h tgt c (forEach_mount h tgt xs w)) (e_ref c)"
  using forEach_mount_frame [OF assms, of h tgt "mount_config h tgt c (forEach_mount h tgt xs w)"]
  by (simp_all add: mountedCallback_def forEach_mount_append)

lemma mount_config_boolean_presence:
  assumes "e_type c = Some type_boolean"
  shows "(elements (mount_config h tgt c w) tgt (e_attribute c) \<noteq> None)
           = (cells (mount_config h tgt c w) (e_ref c) = Bool True)"
proof (cases "e_reflect c = Some True")
  case True
  then show ?thesis using assms by (simp add: mount_config_cell_reflect)
next
  case False
  then show ?thesis using assms
    by (simp add: mount_config_cell_no_reflect mount_config_attribute split: option.splits)
qed

lemma watch_callback_cells: "cells (watch_callback h c v w) = cells w"
  by (simp add: watch_callback_def Let_def setTimeout_reset_def setAttribute_fields
      removeAttribute_fields split: option.splits)

lemma watch_callback_notified: "notified (watch_callback h c v w) = notified w"
  by (simp add: watch_callback_def Let_def setTimeout_reset_def setAttribute_fields
      removeAttribute_fields split: option.splits)

lemma watch_callback_attribute:
  assumes "targetRef w = Some t"
  shows "elements (watch_callback h c v w) t (e_attribute c) =
     (if e_type c = Some type_boolean
      then (if v = Bool True
            then (case elements w t (e_attribute c) of None \<Rightarrow> Some [] | Some s \<Rightarrow> Some s)
            else None)
      else (if v = Null \<or> v = Undefined then None else Some (String h v)))"
proof (cases "e_type c = Some type_boolean")
  case True
  then show ?thesis using assms
    by (cases "elements w t (e_attribute c)")
       (simp_all add: watch_callback_def Let_def getAttribute_def hasAttribute_def
          setTimeout_reset_def setAttribute_fields removeAttribute_fields)
next
  case False
  show ?thesis
  proof (cases "v = Null \<or> v = Undefined")
    case True
    with False assms show ?thesis
      by (cases "elements w t (e_attribute c)")
         (simp_all add: watch_callback_def Let_def getAttribute_def setTimeout_reset_def
            removeAttribute_fields)
  next
    case nonnull: False
    with False assms show ?thesis
      by (cases "elements w t (e_attribute c) = Some (String h v)")
         (simp_all add: watch_callback_def Let_def getAttribute_def setTimeout_reset_def
            setAttribute_fields)
  qed
qed

lemma observer_callback_single:
  "targetRef w = Some t \<Longrightarrow> observer_callback on m [rec] w = observer_record on m t rec w"
  by (simp add: observer_callback_def)

text \<open>
  Claim C1 says that with \<open>reflect = true\<close> a value the element carries before the attach
  wins over the value of the cell. The initial sync pushes first and pulls afterwards, so it
  is the other way round. In the example of the README the element carries \<open>text="NEW TEXT"\<close>
  and the cell holds \<open>default text\<close>; after \<open>mountedCallback\<close> the cell still holds
  \<open>default text\<close>, which is not the interpretation of the authored attribute, and the
  attribute is \<open>default text\<close> (the README prints \<open>HTML: default text DATA: default text\<close>).
\<close>

theorem authored_attribute_does_not_win:
  "e_reflect text_binding = Some True \<and>
   getAttribute 0 ''text'' authored_world = Some ''NEW TEXT'' \<and>
   cells authored_world 0 = Str ''default text'' \<and>
   cells (mountedCallback decimal_host readme_table 0 authored_world) 0 = Str ''default text'' \<and>
   cells (mountedCallback decimal_host readme_table 0 authored_world) 0
     \<noteq> raw_value (getAttribute 0 ''text'' authored_world) \<and>
   getAttribute 0 ''text'' (mountedCallback decimal_host readme_table 0 authored_world)
     = Some ''default text'' \<and>
   \<not> hasAttribute 0 ''disabled'' (mountedCallback decimal_host readme_table 0 authored_world) \<and>
   cells (mountedCallback decimal_host readme_table 0 authored_world) 2 = Bool False"
  by (simp add: mountedCallback_def mount_config_def initial_push_def initial_pull_def
      Let_def hasAttribute_def getAttribute_def removeAttribute_fields setAttribute_fields
      strict_eq_def readme_table_def disabled_binding_def selected_binding_def
      text_binding_def paragraph_binding_def authored_world_def initial_world_def)

text \<open>
  Claim C1, amended. For a binding with \<open>reflect = true\<close> whose attribute and cell no other
  binding of the table shares, \<open>mountedCallback\<close> leaves the attribute as the cell's original
  value dictates, whatever the element carried before: absent for \<open>null\<close> and \<open>undefined\<close>
  and \<open>String(value)\<close> otherwise, and for a Boolean binding present exactly when the value is
  \<open>true\<close>. The cell then holds the interpretation of that attribute. So the cell's original
  value wins: a String cell holding a string or \<open>null\<close>, a Boolean cell holding a boolean and
  a Number cell holding \<open>null\<close> or a number that \<open>String\<close> and \<open>Number\<close> take back to
  itself keep their value, which is then the one present on the element.
\<close>

theorem cell_wins_at_initial_reconciliation:
  assumes refl: "e_reflect c = Some True"
    and others: "\<forall>kc\<in>set (xs @ ys).
                   e_attribute (snd kc) \<noteq> e_attribute c \<and> e_ref (snd kc) \<noteq> e_ref c"
  shows "(e_type c \<noteq> Some type_boolean \<longrightarrow>
            getAttribute tgt (e_attribute c) (mountedCallback h (xs @ (k, c) # ys) tgt w)
              = (if cells w (e_ref c) = Null \<or> cells w (e_ref c) = Undefined then None
                 else Some (String h (cells w (e_ref c))))) \<and>
         (e_type c = Some type_boolean \<longrightarrow>
            (hasAttribute tgt (e_attribute c) (mountedCallback h (xs @ (k, c) # ys) tgt w)
               \<longleftrightarrow> cells w (e_ref c) = Bool True)) \<and>
         cells (mountedCallback h (xs @ (k, c) # ys) tgt w) (e_ref c)
           = (if e_type c = Some type_boolean
              then Bool (hasAttribute tgt (e_attribute c)
                           (mountedCallback h (xs @ (k, c) # ys) tgt w))
              else if e_type c = Some type_number
              then (case getAttribute tgt (e_attribute c)
                           (mountedCallback h (xs @ (k, c) # ys) tgt w) of
                      None \<Rightarrow> Null
                    | Some s \<Rightarrow> if isNaN (NumberOfString h s) then Null
                               else Num (NumberOfString h s))
              else raw_value (getAttribute tgt (e_attribute c)
                           (mountedCallback h (xs @ (k, c) # ys) tgt w))) \<and>
         ((e_type c = Some type_string \<and> (cells w (e_ref c) = Null \<or> (\<exists>s. cells w (e_ref c) = Str s))) \<or>
          (e_type c = Some type_boolean \<and> (\<exists>b. cells w (e_ref c) = Bool b)) \<or>
          (e_type c = Some type_number \<and>
             (cells w (e_ref c) = Null \<or>
              (\<exists>n. cells w (e_ref c) = Num n \<and> n \<noteq> NaN \<and>
                   NumberOfString h (StringOfNumber h n) = n)))
            \<longrightarrow> cells (mountedCallback h (xs @ (k, c) # ys) tgt w) (e_ref c) = cells w (e_ref c))"
proof -
  define w0 where "w0 = forEach_mount h tgt xs w"
  define w' where "w' = mountedCallback h (xs @ (k, c) # ys) tgt w"
  from others have before: "\<forall>kc\<in>set xs. e_attribute (snd kc) \<noteq> e_attribute c \<and> e_ref (snd kc) \<noteq> e_ref c"
    and after: "\<forall>kc\<in>set ys. e_attribute (snd kc) \<noteq> e_attribute c \<and> e_ref (snd kc) \<noteq> e_ref c"
    by simp_all
  have v0: "cells w0 (e_ref c) = cells w (e_ref c)"
    using forEach_mount_frame [OF before, of h tgt w] by (simp add: w0_def)
  have el: "elements w' tgt (e_attribute c)
      = elements (mount_config h tgt c w0) tgt (e_attribute c)"
    and ce: "cells w' (e_ref c) = cells (mount_config h tgt c w0) (e_ref c)"
    using mountedCallback_split [OF after, of h xs k tgt w] by (simp_all add: w'_def w0_def)
  have attr: "elements w' tgt (e_attribute c) =
     (if e_type c = Some type_boolean
      then (if cells w (e_ref c) = Bool True
            then (case elements w0 tgt (e_attribute c) of None \<Rightarrow> Some [] | Some s \<Rightarrow> Some s)
            else None)
      else (if cells w (e_ref c) = Null \<or> cells w (e_ref c) = Undefined then None
            else Some (String h (cells w (e_ref c)))))"
    by (simp only: el mount_config_attribute v0)
  have cell: "cells w' (e_ref c) =
     (if e_type c = Some type_boolean then Bool (elements w' tgt (e_attribute c) \<noteq> None)
      else if e_type c = Some type_number
      then (case elements w' tgt (e_attribute c) of
              None \<Rightarrow> Null
            | Some s \<Rightarrow> if isNaN (NumberOfString h s) then Null else Num (NumberOfString h s))
      else raw_value (elements w' tgt (e_attribute c)))"
    by (simp only: ce el mount_config_cell_reflect [OF refl])
  have 1: "e_type c \<noteq> Some type_boolean \<longrightarrow>
      getAttribute tgt (e_attribute c) w'
        = (if cells w (e_ref c) = Null \<or> cells w (e_ref c) = Undefined then None
           else Some (String h (cells w (e_ref c))))"
    by (simp add: getAttribute_def attr)
  have 2: "e_type c = Some type_boolean \<longrightarrow>
      (hasAttribute tgt (e_attribute c) w' \<longleftrightarrow> cells w (e_ref c) = Bool True)"
    by (simp add: hasAttribute_def attr split: option.splits)
  have 3: "cells w' (e_ref c)
      = (if e_type c = Some type_boolean then Bool (hasAttribute tgt (e_attribute c) w')
         else if e_type c = Some type_number
         then (case getAttribute tgt (e_attribute c) w' of
                 None \<Rightarrow> Null
               | Some s \<Rightarrow> if isNaN (NumberOfString h s) then Null else Num (NumberOfString h s))
         else raw_value (getAttribute tgt (e_attribute c) w'))"
    using cell by (simp only: hasAttribute_def getAttribute_def)
  have 4: "cells w' (e_ref c) = cells w (e_ref c)"
    if "(e_type c = Some type_string \<and> (cells w (e_ref c) = Null \<or> (\<exists>s. cells w (e_ref c) = Str s))) \<or>
        (e_type c = Some type_boolean \<and> (\<exists>b. cells w (e_ref c) = Bool b)) \<or>
        (e_type c = Some type_number \<and>
           (cells w (e_ref c) = Null \<or>
            (\<exists>n. cells w (e_ref c) = Num n \<and> n \<noteq> NaN \<and>
                 NumberOfString h (StringOfNumber h n) = n)))"
    using that by (auto simp: cell attr isNaN_def split: option.splits)
  from 1 2 3 4 show ?thesis unfolding w'_def by blast
qed

theorem cell_wins_at_initial_reconciliation_witness:
  "e_reflect text_binding = Some True \<and>
   getAttribute 0 ''text'' authored_world = Some ''NEW TEXT'' \<and>
   cells authored_world 0 = Str ''default text'' \<and>
   getAttribute 0 ''text'' (mountedCallback decimal_host readme_table 0 authored_world)
     = Some ''default text'' \<and>
   cells (mountedCallback decimal_host readme_table 0 authored_world) 0 = Str ''default text''"
proof -
  let ?xs = "[(''disabled'', disabled_binding), (''selected'', selected_binding)]"
  let ?ys = "[(''paragraph'', paragraph_binding)]"
  have refl: "e_reflect text_binding = Some True"
    by (simp add: text_binding_def)
  have others: "\<forall>kc\<in>set (?xs @ ?ys).
      e_attribute (snd kc) \<noteq> e_attribute text_binding \<and> e_ref (snd kc) \<noteq> e_ref text_binding"
    by (simp add: text_binding_def disabled_binding_def selected_binding_def
        paragraph_binding_def)
  have table: "?xs @ (''text'', text_binding) # ?ys = readme_table"
    by (simp add: readme_table_def)
  have pre: "getAttribute 0 ''text'' authored_world = Some ''NEW TEXT''"
    "cells authored_world 0 = Str ''default text''"
    by (simp_all add: getAttribute_def authored_world_def initial_world_def)
  note C = cell_wins_at_initial_reconciliation
    [OF refl others, where tgt = 0 and h = decimal_host and k = "''text''"
      and w = authored_world, unfolded table]
  from C have "getAttribute 0 ''text'' (mountedCallback decimal_host readme_table 0 authored_world)
      = Some ''default text''"
    using pre(2) by (simp add: text_binding_def)
  moreover from C have "cells (mountedCallback decimal_host readme_table 0 authored_world) 0
      = Str ''default text''"
    using pre(2) by (simp add: text_binding_def)
  ultimately show ?thesis using refl pre by blast
qed

text \<open>
  Claim C2 says that the inbound path assigns a Number cell the numeric parse of the new raw
  value. The observer callback has no branch for \<open>type === 'number'\<close>: the attribute \<open>42\<close>
  puts the string \<open>42\<close> into the cell and the attribute \<open>abc\<close> the string \<open>abc\<close>, where the
  initial sync on the same element gives the number 42 and \<open>null\<close>.
\<close>

theorem number_inbound_keeps_raw_string:
  "cells (observer_callback True [(''count'', count_binding)]
            [\<lparr>mtype = attributes, target = 0, attributeName = ''count'', oldValue = None\<rparr>]
            (count_world ''42'')) 4 = Str ''42'' \<and>
   cells (observer_callback True [(''count'', count_binding)]
            [\<lparr>mtype = attributes, target = 0, attributeName = ''count'', oldValue = None\<rparr>]
            (count_world ''abc'')) 4 = Str ''abc'' \<and>
   cells (initial_pull decimal_host 0 count_binding (count_world ''42'')) 4 = Num (Fin 42) \<and>
   cells (initial_pull decimal_host 0 count_binding (count_world ''abc'')) 4 = Null"
  by (simp add: observer_callback_def observer_record_def initial_pull_def Let_def
      getAttribute_def hasAttribute_def strict_eq_def isNaN_def count_binding_def
      count_world_def initial_world_def decimal_host_def)

text \<open>
  Claim C3 says that the engine's own write is neither reported through \<open>onAttributeChange\<close>
  nor followed by a re-assignment of the cell to another value. A Number cell with
  \<open>reflect: true\<close> is written 42 while the attribute is \<open>7\<close>: the watch callback sets the
  attribute to \<open>42\<close>, and the delivery of the record of that write, with the marker still
  set, assigns the cell the string \<open>42\<close>. Nothing is reported.
\<close>

theorem own_number_write_reassigns_cell:
  "pending (watch_callback decimal_host count_binding (Num (Fin 42))
               ((count_world ''7'')\<lparr>cells := (cells (count_world ''7''))(4 := Num (Fin 42))\<rparr>))
     = [\<lparr>mtype = attributes, target = 0, attributeName = ''count'', oldValue = Some ''7''\<rparr>] \<and>
   isUpdatingDomFromRef (watch_callback decimal_host count_binding (Num (Fin 42))
               ((count_world ''7'')\<lparr>cells := (cells (count_world ''7''))(4 := Num (Fin 42))\<rparr>)) \<and>
   getAttribute 0 ''count'' (watch_callback decimal_host count_binding (Num (Fin 42))
               ((count_world ''7'')\<lparr>cells := (cells (count_world ''7''))(4 := Num (Fin 42))\<rparr>))
     = Some ''42'' \<and>
   cells (deliver True [(''count'', count_binding)]
            (watch_callback decimal_host count_binding (Num (Fin 42))
               ((count_world ''7'')\<lparr>cells := (cells (count_world ''7''))(4 := Num (Fin 42))\<rparr>))) 4
     = Str ''42'' \<and>
   notified (deliver True [(''count'', count_binding)]
            (watch_callback decimal_host count_binding (Num (Fin 42))
               ((count_world ''7'')\<lparr>cells := (cells (count_world ''7''))(4 := Num (Fin 42))\<rparr>)))
     = []"
  by (simp add: deliver_def observer_callback_def observer_record_def watch_callback_def
      setTimeout_reset_def setAttribute_def queue_record_def Let_def
      getAttribute_def hasAttribute_def strict_eq_def count_binding_def
      count_world_def initial_world_def decimal_host_def)

text \<open>
  What holds of the engine's own write for every binding: when no record is pending before,
  the delivery of the records the watch callback queued reports nothing (the marker is set
  whenever the callback wrote), and the cell of a Boolean binding holding a boolean, or of
  another binding holding a string or \<open>null\<close>, is not assigned.
\<close>

lemma observer_record_marked:
  "isUpdatingDomFromRef w \<Longrightarrow>
   notified (observer_record on m t rec w) = notified w \<and>
   isUpdatingDomFromRef (observer_record on m t rec w)"
  by (simp add: observer_record_def Let_def split: option.splits)

lemma observer_loop_marked:
  "isUpdatingDomFromRef w \<Longrightarrow> notified (observer_loop on m t recs w) = notified w"
proof (induction recs arbitrary: w)
  case Nil
  show ?case by simp
next
  case (Cons rec recs)
  from observer_record_marked [OF Cons.prems, of on m t rec]
  have "notified (observer_record on m t rec w) = notified w"
    and "isUpdatingDomFromRef (observer_record on m t rec w)" by simp_all
  with Cons.IH [of "observer_record on m t rec w"] show ?case by simp
qed

lemma watch_callback_marks:
  "watch_callback h c v w = w \<or> isUpdatingDomFromRef (watch_callback h c v w)"
proof (cases "targetRef w")
  case None
  then have "watch_callback h c v w = w" by (simp add: watch_callback_def)
  then show ?thesis by (rule disjI1)
next
  case (Some t)
  show ?thesis
  proof (cases "e_type c = Some type_boolean")
    case True
    show ?thesis
    proof (cases "hasAttribute t (e_attribute c) w = (v = Bool True)")
      case same: True
      with True Some have "watch_callback h c v w = w"
        by (simp add: watch_callback_def Let_def)
      then show ?thesis by (rule disjI1)
    next
      case differ: False
      with True Some have "isUpdatingDomFromRef (watch_callback h c v w)"
        by (simp add: watch_callback_def Let_def setTimeout_reset_def setAttribute_fields
            removeAttribute_fields)
      then show ?thesis by (rule disjI2)
    qed
  next
    case False
    show ?thesis
    proof (cases "getAttribute t (e_attribute c) w
        = (if v = Null \<or> v = Undefined then None else Some (String h v))")
      case same: True
      with False Some have "watch_callback h c v w = w"
        by (simp add: watch_callback_def Let_def)
      then show ?thesis by (rule disjI1)
    next
      case differ: False
      with False Some have "isUpdatingDomFromRef (watch_callback h c v w)"
        by (simp add: watch_callback_def Let_def setTimeout_reset_def setAttribute_fields
            removeAttribute_fields split: option.splits)
      then show ?thesis by (rule disjI2)
    qed
  qed
qed

lemma own_write_not_notified:
  assumes "pending w = []"
  shows "notified (deliver on m (watch_callback h c v w)) = notified w"
proof (cases "watch_callback h c v w = w")
  case True
  then show ?thesis using assms by (simp add: deliver_def)
next
  case False
  define w1 where "w1 = watch_callback h c v w"
  from False watch_callback_marks [of h c v w] have "isUpdatingDomFromRef w1"
    by (simp add: w1_def)
  then have "isUpdatingDomFromRef (w1\<lparr>pending := []\<rparr>)" by simp
  from observer_loop_marked [OF this]
  have "notified (deliver on m w1) = notified w1"
    by (simp add: deliver_def observer_callback_def split: option.splits)
  then show ?thesis by (simp add: w1_def watch_callback_notified)
qed

lemma observer_record_elements: "elements (observer_record on m t rec w) = elements w"
  by (simp add: observer_record_def Let_def split: option.splits)

lemma observer_record_keeps_cells:
  assumes "map_of m (attributeName rec) = Some c"
    and "strict_eq (cells w (e_ref c))
           (if e_type c = Some type_boolean then Bool (elements w t (attributeName rec) \<noteq> None)
            else raw_value (elements w t (attributeName rec)))"
  shows "cells (observer_record on m t rec w) = cells w"
proof (cases "e_type c = Some type_boolean")
  case True
  with assms show ?thesis
    by (simp add: observer_record_def Let_def getAttribute_def hasAttribute_def)
next
  case False
  with assms show ?thesis
    by (simp add: observer_record_def Let_def getAttribute_def hasAttribute_def)
qed

lemma observer_loop_keeps_cells:
  assumes "\<forall>rec\<in>set recs. attributeName rec = e_attribute c"
    and "map_of m (e_attribute c) = Some c"
    and "strict_eq (cells w (e_ref c))
           (if e_type c = Some type_boolean then Bool (elements w t (e_attribute c) \<noteq> None)
            else raw_value (elements w t (e_attribute c)))"
  shows "cells (observer_loop on m t recs w) = cells w"
  using assms
proof (induction recs arbitrary: w)
  case Nil
  show ?case by simp
next
  case (Cons rec recs)
  from Cons.prems have name: "attributeName rec = e_attribute c"
    and rest: "\<forall>rec\<in>set recs. attributeName rec = e_attribute c" by simp_all
  have keep: "cells (observer_record on m t rec w) = cells w"
    using observer_record_keeps_cells [of m rec c w t on] Cons.prems(2,3)
    by (simp only: name)
  have pre: "strict_eq (cells (observer_record on m t rec w) (e_ref c))
      (if e_type c = Some type_boolean
       then Bool (elements (observer_record on m t rec w) t (e_attribute c) \<noteq> None)
       else raw_value (elements (observer_record on m t rec w) t (e_attribute c)))"
    using Cons.prems(3) by (simp only: keep observer_record_elements)
  have "cells (observer_loop on m t recs (observer_record on m t rec w))
      = cells (observer_record on m t rec w)"
    by (rule Cons.IH [OF rest Cons.prems(2) pre])
  then show ?case using keep by simp
qed

lemma pending_queue_record:
  "pending w = [] \<Longrightarrow> \<forall>rec\<in>set (pending (queue_record e n w)). attributeName rec = n"
  by (simp add: queue_record_def split: option.splits prod.splits)

lemma pending_setAttribute: "pending (setAttribute e n v w) = pending (queue_record e n w)"
  by (simp add: setAttribute_def)

lemma pending_removeAttribute:
  "pending (removeAttribute e n w)
     = (if elements w e n = None then pending w else pending (queue_record e n w))"
  by (simp add: removeAttribute_def)

lemma watch_callback_pending:
  assumes "pending w = []"
  shows "\<forall>rec\<in>set (pending (watch_callback h c v w)). attributeName rec = e_attribute c"
proof -
  have q: "\<forall>rec\<in>set (pending (queue_record e (e_attribute c) (w\<lparr>isUpdatingDomFromRef := True\<rparr>))).
      attributeName rec = e_attribute c" for e
    by (rule pending_queue_record) (simp add: assms)
  show ?thesis
  proof (cases "e_type c = Some type_boolean")
    case True
    then show ?thesis using assms q
      by (simp add: watch_callback_def Let_def setTimeout_reset_def pending_setAttribute
          pending_removeAttribute split: option.splits)
  next
    case False
    then show ?thesis using assms q
      by (simp add: watch_callback_def Let_def setTimeout_reset_def pending_setAttribute
          pending_removeAttribute split: option.splits)
  qed
qed

lemma own_write_keeps_cell:
  assumes "pending w = []" and "map_of m (e_attribute c) = Some c"
    and "cells w (e_ref c) = v"
    and "(e_type c = Some type_boolean \<and> (\<exists>b. v = Bool b)) \<or>
         (e_type c \<noteq> Some type_boolean \<and> (v = Null \<or> (\<exists>s. v = Str s)))"
  shows "cells (deliver on m (watch_callback h c v w)) = cells w"
proof (cases "targetRef w")
  case None
  then show ?thesis using assms(1) by (simp add: watch_callback_def deliver_def)
next
  case (Some t)
  define w1 where "w1 = watch_callback h c v w"
  have t1: "targetRef w1 = Some t"
    using Some by (simp add: w1_def watch_callback_def Let_def setTimeout_reset_def
        setAttribute_fields removeAttribute_fields split: option.splits)
  have c1: "cells w1 = cells w" by (simp add: w1_def watch_callback_cells)
  have recs: "\<forall>rec\<in>set (pending w1). attributeName rec = e_attribute c"
    using watch_callback_pending [OF assms(1), of h c v] by (simp add: w1_def)
  have el: "elements w1 t (e_attribute c) =
     (if e_type c = Some type_boolean
      then (if v = Bool True
            then (case elements w t (e_attribute c) of None \<Rightarrow> Some [] | Some s \<Rightarrow> Some s)
            else None)
      else (if v = Null \<or> v = Undefined then None else Some (String h v)))"
    unfolding w1_def by (rule watch_callback_attribute [OF Some])
  have eq: "strict_eq (cells (w1\<lparr>pending := []\<rparr>) (e_ref c))
           (if e_type c = Some type_boolean
            then Bool (elements (w1\<lparr>pending := []\<rparr>) t (e_attribute c) \<noteq> None)
            else raw_value (elements (w1\<lparr>pending := []\<rparr>) t (e_attribute c)))"
    using assms(3,4) by (auto simp: strict_eq_def c1 el split: option.splits)
  have "cells (observer_loop on m t (pending w1) (w1\<lparr>pending := []\<rparr>)) = cells w1"
    using observer_loop_keeps_cells [OF recs assms(2) eq] by simp
  then have "cells (deliver on m w1) = cells w1"
    using t1 by (simp add: deliver_def observer_callback_def)
  then show ?thesis by (simp add: c1 flip: w1_def)
qed

text \<open>
  For a binding whose reflect flag is not \<open>true\<close>, the observer callback on a record of its
  attribute leaves every cell as it is; when \<open>onAttributeChange\<close> is given, the marker is not
  set and the old raw value differs from the new one, it is called once, with the attribute
  name, the old raw value of the record, the new raw value read from the element and the
  value the callback computes: presence for a Boolean binding, the raw value or \<open>null\<close> for
  every other binding, a Number binding included.
\<close>

lemma one_way_record:
  assumes "e_reflect c \<noteq> Some True" and "map_of m (attributeName rec) = Some c"
    and "mtype rec = attributes" and "target rec = t" and "targetRef w = Some t"
  shows "cells (observer_callback on m [rec] w) = cells w \<and>
         (on \<and> \<not> isUpdatingDomFromRef w \<and> oldValue rec \<noteq> getAttribute t (attributeName rec) w
            \<longrightarrow> notified (observer_callback on m [rec] w) =
                  notified w @
                    [(attributeName rec, oldValue rec, getAttribute t (attributeName rec) w,
                      if e_type c = Some type_boolean
                      then Bool (hasAttribute t (attributeName rec) w)
                      else raw_value (getAttribute t (attributeName rec) w))])"
  using assms by (simp add: observer_callback_single observer_record_def Let_def)

text \<open>
  Claim C4 says that with \<open>reflect = false\<close> the cell is left unchanged and
  \<open>onAttributeChange\<close> is called with the attribute name, the old and new raw values and the
  interpreted value. For a Number binding the interpreted value is the numeric parse or
  \<open>null\<close>, as the initial sync computes it. The observer callback has no branch for
  \<open>type === 'number'\<close>: with \<open>count="42"\<close> the call carries the string \<open>42\<close> and with
  \<open>count="abc"\<close> the string \<open>abc\<close>, where the initial sync interprets the same attributes as
  the number 42 and as \<open>null\<close>. The cell is left unchanged.
\<close>

theorem number_callback_gets_raw_string:
  "notified (observer_callback True [(''count'', one_way_count_binding)]
            [\<lparr>mtype = attributes, target = 0, attributeName = ''count'', oldValue = None\<rparr>]
            (count_world ''42''))
     = [(''count'', None, Some ''42'', Str ''42'')] \<and>
   notified (observer_callback True [(''count'', one_way_count_binding)]
            [\<lparr>mtype = attributes, target = 0, attributeName = ''count'', oldValue = None\<rparr>]
            (count_world ''abc''))
     = [(''count'', None, Some ''abc'', Str ''abc'')] \<and>
   cells (observer_callback True [(''count'', one_way_count_binding)]
            [\<lparr>mtype = attributes, target = 0, attributeName = ''count'', oldValue = None\<rparr>]
            (count_world ''42'')) 4 = cells (count_world ''42'') 4 \<and>
   cells (initial_pull decimal_host 0 count_binding (count_world ''42'')) 4 = Num (Fin 42) \<and>
   cells (initial_pull decimal_host 0 count_binding (count_world ''abc'')) 4 = Null"
  by (simp add: observer_callback_def observer_record_def initial_pull_def Let_def
      getAttribute_def hasAttribute_def strict_eq_def isNaN_def count_binding_def
      one_way_count_binding_def count_world_def initial_world_def decimal_host_def)

text \<open>
  Claim C5. For a Boolean binding, after the watch callback has run on the value of the cell
  (the element being attached), after the initial sync of the binding, and after the whole
  \<open>mountedCallback\<close> when no later binding shares the attribute or the cell, the attribute is
  present if and only if the cell holds exactly \<open>true\<close>. The engine sets the attribute only
  when it was absent, and then with the empty string as content; an attribute that was there
  keeps its content or is removed.
\<close>

theorem boolean_presence_invariant:
  assumes "e_type c = Some type_boolean"
  shows "(targetRef w = Some t \<longrightarrow>
            (hasAttribute t (e_attribute c) (watch_callback h c (cells w (e_ref c)) w)
               \<longleftrightarrow> cells (watch_callback h c (cells w (e_ref c)) w) (e_ref c) = Bool True) \<and>
            getAttribute t (e_attribute c) (watch_callback h c (cells w (e_ref c)) w)
              = (if cells w (e_ref c) = Bool True
                 then (case getAttribute t (e_attribute c) w of None \<Rightarrow> Some [] | Some s \<Rightarrow> Some s)
                 else None)) \<and>
         (hasAttribute tgt (e_attribute c) (mount_config h tgt c w)
            \<longleftrightarrow> cells (mount_config h tgt c w) (e_ref c) = Bool True) \<and>
         getAttribute tgt (e_attribute c) (mount_config h tgt c w)
           = (if cells w (e_ref c) = Bool True
              then (case getAttribute tgt (e_attribute c) w of None \<Rightarrow> Some [] | Some s \<Rightarrow> Some s)
              else None) \<and>
         ((\<forall>kc\<in>set ys. e_attribute (snd kc) \<noteq> e_attribute c \<and> e_ref (snd kc) \<noteq> e_ref c) \<longrightarrow>
            (hasAttribute tgt (e_attribute c) (mountedCallback h (xs @ (k, c) # ys) tgt w)
               \<longleftrightarrow> cells (mountedCallback h (xs @ (k, c) # ys) tgt w) (e_ref c) = Bool True))"
proof -
  have out: "targetRef w = Some t \<longrightarrow>
            (hasAttribute t (e_attribute c) (watch_callback h c (cells w (e_ref c)) w)
               \<longleftrightarrow> cells (watch_callback h c (cells w (e_ref c)) w) (e_ref c) = Bool True) \<and>
            getAttribute t (e_attribute c) (watch_callback h c (cells w (e_ref c)) w)
              = (if cells w (e_ref c) = Bool True
                 then (case getAttribute t (e_attribute c) w of None \<Rightarrow> Some [] | Some s \<Rightarrow> Some s)
                 else None)"
    using assms
    by (simp add: hasAttribute_def getAttribute_def watch_callback_attribute
        watch_callback_cells split: option.splits)
  have one: "hasAttribute tgt (e_attribute c) (mount_config h tgt c w)
            \<longleftrightarrow> cells (mount_config h tgt c w) (e_ref c) = Bool True"
    using mount_config_boolean_presence [OF assms] by (simp add: hasAttribute_def)
  have content: "getAttribute tgt (e_attribute c) (mount_config h tgt c w)
           = (if cells w (e_ref c) = Bool True
              then (case getAttribute tgt (e_attribute c) w of None \<Rightarrow> Some [] | Some s \<Rightarrow> Some s)
              else None)"
    using assms by (simp add: getAttribute_def mount_config_attribute)
  have whole: "hasAttribute tgt (e_attribute c) (mountedCallback h (xs @ (k, c) # ys) tgt w)
               \<longleftrightarrow> cells (mountedCallback h (xs @ (k, c) # ys) tgt w) (e_ref c) = Bool True"
    if "\<forall>kc\<in>set ys. e_attribute (snd kc) \<noteq> e_attribute c \<and> e_ref (snd kc) \<noteq> e_ref c"
    using mountedCallback_split [OF that, of h xs k tgt w]
      mount_config_boolean_presence [OF assms, of h tgt "forEach_mount h tgt xs w"]
    by (simp add: hasAttribute_def)
  from out one content whole show ?thesis by blast
qed

theorem boolean_presence_invariant_witness:
  "e_type selected_binding = Some type_boolean \<and> targetRef authored_world = Some 0 \<and>
   \<not> hasAttribute 0 ''selected''
       (watch_callback decimal_host selected_binding (Bool False) authored_world) \<and>
   \<not> hasAttribute 0 ''selected''
       (mountedCallback decimal_host
          [(''selected'', selected_binding), (''text'', text_binding)] 0 authored_world) \<and>
   cells (mountedCallback decimal_host
          [(''selected'', selected_binding), (''text'', text_binding)] 0 authored_world) 1
     = Bool False"
proof -
  have ty: "e_type selected_binding = Some type_boolean"
    by (simp add: selected_binding_def)
  note C = boolean_presence_invariant [OF ty, where w = authored_world and t = 0
      and h = decimal_host and tgt = 0 and xs = "[]" and k = "''selected''"
      and ys = "[(''text'', text_binding)]"]
  have tr: "targetRef authored_world = Some 0"
    by (simp add: authored_world_def initial_world_def)
  have cell: "cells authored_world (e_ref selected_binding) = Bool False"
    by (simp add: authored_world_def initial_world_def selected_binding_def)
  have later: "\<forall>kc\<in>set [(''text'', text_binding)].
      e_attribute (snd kc) \<noteq> e_attribute selected_binding \<and>
      e_ref (snd kc) \<noteq> e_ref selected_binding"
    by (simp add: text_binding_def selected_binding_def)
  from C tr cell have 1: "\<not> hasAttribute 0 ''selected''
       (watch_callback decimal_host selected_binding (Bool False) authored_world)"
    by (simp add: watch_callback_cells selected_binding_def)
  have cellm: "cells (mountedCallback decimal_host
          [(''selected'', selected_binding), (''text'', text_binding)] 0 authored_world) 1
     = Bool False"
    by (simp add: mountedCallback_def mount_config_def initial_push_def initial_pull_def
        Let_def hasAttribute_def getAttribute_def removeAttribute_fields setAttribute_fields
        strict_eq_def selected_binding_def text_binding_def authored_world_def
        initial_world_def)
  from C later have "hasAttribute 0 (e_attribute selected_binding)
        (mountedCallback decimal_host ([] @ (''selected'', selected_binding)
            # [(''text'', text_binding)]) 0 authored_world)
      \<longleftrightarrow> cells (mountedCallback decimal_host ([] @ (''selected'', selected_binding)
            # [(''text'', text_binding)]) 0 authored_world) (e_ref selected_binding) = Bool True"
    by blast
  then have 2: "\<not> hasAttribute 0 ''selected''
       (mountedCallback decimal_host
          [(''selected'', selected_binding), (''text'', text_binding)] 0 authored_world)"
    using cellm by (simp add: selected_binding_def)
  from ty tr 1 2 cellm show ?thesis by blast
qed

text \<open>
  Claim C6. For a binding that is not Boolean (String or Number) on an attached element:
  the watch callback on the new value \<open>null\<close> leaves the attribute absent, and with
  \<open>reflect = true\<close> the observer callback on a record of the attribute, the attribute being
  absent, leaves the cell holding \<open>null\<close>.
\<close>

theorem null_round_trip:
  assumes "e_type c \<noteq> Some type_boolean" and "targetRef w = Some t"
  shows "getAttribute t (e_attribute c) (watch_callback h c Null w) = None \<and>
         (e_reflect c = Some True \<and> map_of m (attributeName rec) = Some c \<and>
          mtype rec = attributes \<and> target rec = t \<and>
          getAttribute t (attributeName rec) w = None
            \<longrightarrow> cells (observer_callback on m [rec] w) (e_ref c) = Null)"
proof -
  have "getAttribute t (e_attribute c) (watch_callback h c Null w) = None"
    using assms by (simp add: getAttribute_def watch_callback_attribute)
  moreover have "cells (observer_callback on m [rec] w) (e_ref c) = Null"
    if "e_reflect c = Some True" "map_of m (attributeName rec) = Some c"
      "mtype rec = attributes" "target rec = t" "getAttribute t (attributeName rec) w = None"
    using that assms
    by (simp add: observer_callback_single observer_record_def Let_def strict_eq_def)
  ultimately show ?thesis by blast
qed

theorem null_round_trip_witness:
  "e_type text_binding \<noteq> Some type_boolean \<and> targetRef authored_world = Some 0 \<and>
   getAttribute 0 ''text'' authored_world = Some ''NEW TEXT'' \<and>
   getAttribute 0 ''text'' (watch_callback decimal_host text_binding Null authored_world) = None \<and>
   cells stripped_world 0 = Str ''default text'' \<and>
   cells (observer_callback True [(''text'', text_binding)]
            [\<lparr>mtype = attributes, target = 0, attributeName = ''text'',
              oldValue = Some ''NEW TEXT''\<rparr>] stripped_world) 0 = Null"
proof -
  let ?rec = "\<lparr>mtype = attributes, target = 0, attributeName = ''text'',
              oldValue = Some ''NEW TEXT''\<rparr>"
  have ty: "e_type text_binding \<noteq> Some type_boolean"
    by (simp add: text_binding_def)
  have tr: "targetRef authored_world = Some 0"
    by (simp add: authored_world_def initial_world_def)
  have tr': "targetRef stripped_world = Some 0"
    by (simp add: stripped_world_def authored_world_def initial_world_def)
  from null_round_trip [OF ty tr, of decimal_host "[]" ?rec True]
  have 1: "getAttribute 0 ''text''
      (watch_callback decimal_host text_binding Null authored_world) = None"
    by (simp add: text_binding_def)
  have pre: "e_reflect text_binding = Some True \<and>
      map_of [(''text'', text_binding)] (attributeName ?rec) = Some text_binding \<and>
      mtype ?rec = attributes \<and> target ?rec = 0 \<and>
      getAttribute 0 (attributeName ?rec) stripped_world = None"
    by (simp add: text_binding_def stripped_world_def getAttribute_def)
  from null_round_trip [OF ty tr', of decimal_host "[(''text'', text_binding)]" ?rec True] pre
  have 2: "cells (observer_callback True [(''text'', text_binding)] [?rec] stripped_world)
      (e_ref text_binding) = Null"
    by blast
  have 3: "getAttribute 0 ''text'' authored_world = Some ''NEW TEXT''"
    "cells stripped_world 0 = Str ''default text''"
    by (simp_all add: getAttribute_def stripped_world_def authored_world_def
        initial_world_def)
  from ty tr 1 2 3 show ?thesis by (simp add: text_binding_def)
qed

end
